theory Spec2Isabelle
  imports Complex_Main
begin

section \<open>Values of the REST layer\<close>

text \<open>
  \<^verbatim>\<open>req.media\<close> is what \<^verbatim>\<open>json.loads\<close> gives: a dict, a list, a string, a number, a
  boolean or \<^verbatim>\<open>None\<close>. A dict keeps its items in insertion order.
\<close>

datatype json =
    JNull
  | JBool bool
  | JInt int
  | JFloat real
  | JStr string
  | JList "json list"
  | JDict "(string \<times> json) list"

text \<open>
  A Python \<^verbatim>\<open>str\<close> that is converted to a number is the list of its code points;
  \<open>ascii\<close> gives the code points of a text of ASCII characters.
  \<^verbatim>\<open>requested_version\<close> is the integer default \<^verbatim>\<open>0\<close> of the handlers' signature when the
  route has no version field, and the string of the path segment otherwise.
\<close>

type_synonym pystr = "nat list"

definition ascii :: "string \<Rightarrow> pystr" where
  "ascii s = map of_char s"

datatype pyval = PyInt int | PyStr pystr

text \<open>
  Exceptions. \<open>ValueError\<close> stands for an instance of \<^verbatim>\<open>ValueError\<close> or of one of its
  subclasses (what \<^verbatim>\<open>except ValueError\<close> catches); \<open>Exception c\<close> for an instance of a
  class \<open>c\<close> that is none of the others.
\<close>

datatype exn = ValueError | KeyError | HTTPBadRequest | Exception string

subsection \<open>The builtin \<^verbatim>\<open>int\<close>\<close>

text \<open>
  \<^verbatim>\<open>int(x)\<close> in base 10 on an integer is the integer. On a string it skips whitespace at
  both ends, reads an optional sign \<^verbatim>\<open>+\<close> or \<^verbatim>\<open>-\<close> and then decimal digits, where single
  underscores \<^verbatim>\<open>_\<close> may separate digits, and raises \<^verbatim>\<open>ValueError\<close> on anything else.

  Below code point 127 the whitespace is what C's \<^verbatim>\<open>isspace\<close> accepts: the space and the
  controls 9 to 13, but not the separators 28 to 31. From 127 on, it is the whitespace of
  Unicode, which \<^verbatim>\<open>int\<close> turns into spaces first. A digit is a decimal digit of Unicode:
  the ten code points from a digit zero on stand for 0 to 9. The digits zero are those of
  Unicode 14.0; the database of another interpreter differs in the scripts it knows.
  Underscores are those of Python 3.6 and later.
\<close>

definition is_space :: "nat \<Rightarrow> bool" where
  "is_space c =
     (c \<in> set [0x20, 0x09, 0x0A, 0x0B, 0x0C, 0x0D,
                0x85, 0xA0, 0x1680,
                0x2000, 0x2001, 0x2002, 0x2003, 0x2004, 0x2005, 0x2006, 0x2007, 0x2008,
                0x2009, 0x200A, 0x2028, 0x2029, 0x202F, 0x205F, 0x3000])"

definition decimal_zeros :: "nat list" where
  "decimal_zeros =
     [0x30, 0x660, 0x6F0, 0x7C0, 0x966, 0x9E6, 0xA66, 0xAE6, 0xB66, 0xBE6, 0xC66, 0xCE6,
      0xD66, 0xDE6, 0xE50, 0xED0, 0xF20, 0x1040, 0x1090, 0x17E0, 0x1810, 0x1946, 0x19D0,
      0x1A80, 0x1A90, 0x1B50, 0x1BB0, 0x1C40, 0x1C50, 0xA620, 0xA8D0, 0xA900, 0xA9D0,
      0xA9F0, 0xAA50, 0xABF0, 0xFF10, 0x104A0, 0x10D30, 0x11066, 0x110F0, 0x11136,
      0x111D0, 0x112F0, 0x11450, 0x114D0, 0x11650, 0x116C0, 0x11730, 0x118E0, 0x11950,
      0x11C50, 0x11D50, 0x11DA0, 0x16A60, 0x16AC0, 0x16B50, 0x1D7CE, 0x1D7D8, 0x1D7E2,
      0x1D7EC, 0x1D7F6, 0x1E140, 0x1E2F0, 0x1E950, 0x1FBF0]"

definition digit_val :: "nat \<Rightarrow> nat option" where
  "digit_val c =
     (case filter (\<lambda>z. z \<le> c \<and> c < z + 10) decimal_zeros of
        [] \<Rightarrow> None
      | z # zs \<Rightarrow> Some (c - z))"

fun parse_digits :: "bool \<Rightarrow> nat \<Rightarrow> pystr \<Rightarrow> nat option" where
  "parse_digits prev acc [] = (if prev then Some acc else None)"
| "parse_digits prev acc (c # cs) =
     (if c = of_char CHR ''_'' then (if prev then parse_digits False acc cs else None)
      else case digit_val c of
             None \<Rightarrow> None
           | Some d \<Rightarrow> parse_digits True (10 * acc + d) cs)"

definition strip :: "pystr \<Rightarrow> pystr" where
  "strip s = rev (dropWhile is_space (rev (dropWhile is_space s)))"

definition int_of_str :: "pystr \<Rightarrow> exn + int" where
  "int_of_str s =
     (case strip s of
        [] \<Rightarrow> Inl ValueError
      | c # cs \<Rightarrow>
          if c = of_char CHR ''-'' then
            (case parse_digits False 0 cs of
               None \<Rightarrow> Inl ValueError | Some n \<Rightarrow> Inr (- int n))
          else if c = of_char CHR ''+'' then
            (case parse_digits False 0 cs of
               None \<Rightarrow> Inl ValueError | Some n \<Rightarrow> Inr (int n))
          else
            (case parse_digits False 0 (c # cs) of
               None \<Rightarrow> Inl ValueError | Some n \<Rightarrow> Inr (int n)))"

fun py_int :: "pyval \<Rightarrow> exn + int" where
  "py_int (PyInt n) = Inr n"
| "py_int (PyStr s) = int_of_str s"

section \<open>Models, versions and engines\<close>

text \<open>
  Modelled from the spec: the version record (version, state, error code and error
  message) and the engine handle of the specification's data model. The classes behind
  \<^verbatim>\<open>self.models\<close> are missing; the records hold the attributes that \<^verbatim>\<open>rest_service.py\<close>
  reads. A version map keeps its items in insertion order.
\<close>

datatype state = DISCOVERED | LOADING | AVAILABLE | UNLOADING | END | FAILED

datatype error_code =
  OK | NOT_FOUND | INVALID_INPUT | LOAD_FAILED | UNLOAD_PENDING | INTERNAL | DEADLINE_EXCEEDED

record version_status =
  vs_version :: int
  vs_state :: state
  vs_error_code :: error_code
  vs_error_message :: string

record tensor_info =
  dtype :: nat
  shape :: "nat list"

type_synonym tensors = "(string \<times> tensor_info) list"

record model_keys =
  mk_inputs :: "(string \<times> string) list"
  mk_outputs :: "(string \<times> string) list"

datatype ndarray = NDArray json

fun tolist :: "ndarray \<Rightarrow> json" where
  "tolist (NDArray j) = j"

text \<open>
  An engine carries its descriptors and its \<^verbatim>\<open>infer\<close> method, which returns the named
  output arrays or raises. Its \<^verbatim>\<open>in_use\<close> guard is kept in the world state below.
\<close>

record engine =
  input_key_names :: "string list"
  input_tensors :: tensors
  output_tensors :: tensors
  model_keys :: model_keys
  infer :: "json \<Rightarrow> int \<Rightarrow> exn + (string \<times> ndarray) list"

record model =
  versions_statuses :: "(int \<times> version_status) list"
  engines :: "int \<rightharpoonup> engine"

type_synonym models = "string \<rightharpoonup> model"

section \<open>The world a handler runs in\<close>

text \<open>
  A handler changes the \<^verbatim>\<open>in_use\<close> guards of engines and calls its collaborators in some
  order. \<open>in_use w k\<close> counts the acquisitions of the engine \<open>k\<close> (model name and version)
  that have not been released; \<open>calls w\<close> lists, oldest first, the calls made so far.
\<close>

type_synonym key = "string \<times> int"

datatype event =
    CheckStatus
  | CheckModel
  | Media
  | GetInputFormat
  | Preprocess
  | PrepareInputData
  | Acquire key
  | ReadMetadata key
  | Infer key
  | Release key
  | Serialize

record world =
  in_use :: "key \<Rightarrow> int"
  calls :: "event list"

definition call :: "event \<Rightarrow> world \<Rightarrow> world" where
  "call e w = w\<lparr>calls := calls w @ [e]\<rparr>"

definition acquire :: "key \<Rightarrow> world \<Rightarrow> world" where
  "acquire k w = call (Acquire k) (w\<lparr>in_use := (in_use w)(k := in_use w k + 1)\<rparr>)"

definition release :: "key \<Rightarrow> world \<Rightarrow> world" where
  "release k w = call (Release k) (w\<lparr>in_use := (in_use w)(k := in_use w k - 1)\<rparr>)"

section \<open>Responses\<close>

text \<open>The status lines are falcon's constants.\<close>

definition HTTP_200 :: string where
  "HTTP_200 = ''200 OK''"

definition HTTP_400 :: string where
  "HTTP_400 = ''400 Bad Request''"

definition HTTP_NOT_FOUND :: string where
  "HTTP_NOT_FOUND = ''404 Not Found''"

record GetModelStatusResponse =
  model_version_status :: "version_status list"

datatype signature_def = SignatureDef tensors tensors

text \<open>
  \<^verbatim>\<open>model_spec.version.value\<close> is a field of type int64: protobuf refuses a value outside
  its range with \<^verbatim>\<open>ValueError\<close>.
\<close>

definition int64 :: "int \<Rightarrow> bool" where
  "int64 v = (- (2 ^ 63) \<le> v \<and> v < 2 ^ 63)"

record GetModelMetadataResponse =
  model_spec_name :: string
  model_spec_version_value :: int
  metadata :: "(string \<times> (string \<times> signature_def) list) list"

text \<open>
  A response body is the text that \<^verbatim>\<open>json.dumps\<close> gives for a value, or that
  \<^verbatim>\<open>MessageToJson\<close> gives for a message (with its \<^verbatim>\<open>including_default_value_fields\<close>).
\<close>

datatype body =
    json_dumps json
  | StatusToJson GetModelStatusResponse bool
  | MetadataToJson GetModelMetadataResponse

record resp =
  status :: string
  body :: body

section \<open>Collaborators outside the sources at hand\<close>

text \<open>
  Modelled from the spec: the input-format discriminator, which the specification gives
  as ROW, COLUMN or INVALID, computed once per request. The module of constants with
  \<^verbatim>\<open>INVALID_FORMAT\<close> is missing.
\<close>

datatype input_format = INVALID_FORMAT | ROW_FORMAT | COLUMN_FORMAT

datatype representation = Row | Column

text \<open>
  Modelled from the spec: the table \<^verbatim>\<open>OUTPUT_REPRESENTATION\<close> of the missing module of
  constants. The response mirrors the input format, so a row format is answered in rows
  and a column format in columns; the invalid format has no entry.
\<close>

definition OUTPUT_REPRESENTATION :: "input_format \<rightharpoonup> representation" where
  "OUTPUT_REPRESENTATION =
     [ROW_FORMAT \<mapsto> Row, COLUMN_FORMAT \<mapsto> Column]"

text \<open>
  The functions that \<^verbatim>\<open>rest_service.py\<close> imports from modules that are missing are
  parameters of the handlers. \<open>WRONG_MODEL_SPEC d n v\<close> is
  \<^verbatim>\<open>WRONG_MODEL_SPEC.format(n, v)\<close>. The arguments of the others come in the order of the
  calls. \<open>row_formatting\<close> and \<open>column_formatting\<close> lay out the payload of a prediction
  response, which the specification leaves open.
\<close>

record deps =
  check_availability_of_requested_status :: "models \<Rightarrow> pyval \<Rightarrow> string \<Rightarrow> bool"
  check_availability_of_requested_model :: "models \<Rightarrow> pyval \<Rightarrow> string \<Rightarrow> bool \<times> int"
  WRONG_MODEL_SPEC :: "string \<Rightarrow> pyval \<Rightarrow> string"
  get_input_format :: "(string \<times> json) list \<Rightarrow> string list \<Rightarrow> input_format"
  preprocess_json_request ::
    "(string \<times> json) list \<Rightarrow> input_format \<Rightarrow> string list \<Rightarrow> json"
  prepare_input_data ::
    "models \<Rightarrow> string \<Rightarrow> int \<Rightarrow> json \<Rightarrow> bool \<Rightarrow> bool \<times> json \<times> int \<times> string"
  prepare_get_metadata_output :: "tensors \<Rightarrow> tensors \<Rightarrow> model_keys \<Rightarrow> signature_def"
  row_formatting :: "(string \<times> json) list \<Rightarrow> (string \<times> string) list \<Rightarrow> json"
  column_formatting :: "(string \<times> json) list \<Rightarrow> (string \<times> string) list \<Rightarrow> json"

text \<open>
  Modelled from the spec: \<^verbatim>\<open>prepare_json_response\<close> of the missing module
  \<^verbatim>\<open>rest_msg_processing\<close>. The response is \<^verbatim>\<open>{"predictions": [...]}\<close> for row inputs
  and \<^verbatim>\<open>{"outputs": ...}\<close> for column inputs.
\<close>

definition prepare_json_response ::
  "deps \<Rightarrow> representation \<Rightarrow> (string \<times> json) list \<Rightarrow> (string \<times> string) list \<Rightarrow> json" where
  "prepare_json_response d output_representation inference_output model_available_outputs =
     (case output_representation of
        Row \<Rightarrow>
          JDict [(''predictions'', row_formatting d inference_output model_available_outputs)]
      | Column \<Rightarrow>
          JDict [(''outputs'', column_formatting d inference_output model_available_outputs)])"

text \<open>
  Modelled from the spec: \<^verbatim>\<open>add_status_to_response\<close> of the missing module
  \<^verbatim>\<open>service_utils\<close>. It appends to \<^verbatim>\<open>model_version_status\<close> one entry with the version,
  state, error code and error message of the version record.
\<close>

definition add_status_to_response ::
  "version_status \<Rightarrow> GetModelStatusResponse \<Rightarrow> GetModelStatusResponse" where
  "add_status_to_response version_status response =
     response\<lparr>model_version_status := model_version_status response @ [version_status]\<rparr>"

text \<open>
  Modelled from the spec: \<^verbatim>\<open>check_availability_of_requested_status\<close> of the missing
  module \<^verbatim>\<open>service_utils\<close>. The status request fails with NOT_FOUND iff the model name
  is unknown or the specific version has no record. No specific version is requested
  when the requested version is \<^verbatim>\<open>0\<close>, the default of the handler's signature; a text
  that is no integer names no version that has a record.
\<close>

definition status_available :: "models \<Rightarrow> pyval \<Rightarrow> string \<Rightarrow> bool" where
  "status_available ms requested_version model_name =
     (case py_int requested_version of
        Inl e \<Rightarrow> False
      | Inr v \<Rightarrow>
          (case ms model_name of
             None \<Rightarrow> False
           | Some m \<Rightarrow> v = 0 \<or> v \<in> set (map fst (versions_statuses m))))"

text \<open>
  Modelled from the spec: \<^verbatim>\<open>check_availability_of_requested_model\<close> of the missing module
  \<^verbatim>\<open>service_utils\<close>, the specification's \<^verbatim>\<open>resolve\<close> without the acquisition, which the
  handlers do themselves. It is NOT_FOUND when the model name is unknown or no AVAILABLE
  version matches the request; a request for the latest version (\<^verbatim>\<open>0\<close>) picks the
  numerically largest AVAILABLE version.
\<close>

definition available_versions :: "model \<Rightarrow> int list" where
  "available_versions m =
     map fst (filter (\<lambda>(v, s). vs_state s = AVAILABLE) (versions_statuses m))"

definition model_available :: "models \<Rightarrow> pyval \<Rightarrow> string \<Rightarrow> bool \<times> int" where
  "model_available ms requested_version model_name =
     (case py_int requested_version of
        Inl e \<Rightarrow> (False, 0)
      | Inr v \<Rightarrow>
          (case ms model_name of
             None \<Rightarrow> (False, 0)
           | Some m \<Rightarrow>
               if v = 0 then
                 (case available_versions m of
                    [] \<Rightarrow> (False, 0)
                  | a # as \<Rightarrow> (True, fold max as a))
               else if v \<in> set (available_versions m) then (True, v)
               else (False, 0)))"

section \<open>The handlers of \<^verbatim>\<open>rest_service.py\<close>\<close>

text \<open>
  A handler returns the response it has written to \<^verbatim>\<open>resp\<close>, or the exception that
  leaves it, and the world after it. Logging and the reading of the clock are left out:
  they change neither the response nor a guard. The models do not change during one call.
\<close>

definition lookup_engine :: "models \<Rightarrow> string \<Rightarrow> int \<Rightarrow> exn + engine" where
  "lookup_engine ms model_name version =
     (case ms model_name of
        None \<Rightarrow> Inl KeyError
      | Some m \<Rightarrow> (case engines m version of None \<Rightarrow> Inl KeyError | Some e \<Rightarrow> Inr e))"

subsection \<open>\<^verbatim>\<open>GetModelStatus.on_get\<close>\<close>

definition GetModelStatus_on_get ::
  "deps \<Rightarrow> models \<Rightarrow> string \<Rightarrow> pyval \<Rightarrow> world \<Rightarrow> (exn + resp) \<times> world" where
  "GetModelStatus_on_get d ms model_name requested_version w =
     (let valid_model_status =
            check_availability_of_requested_status d ms requested_version model_name;
          w1 = call CheckStatus w
      in if \<not> valid_model_status then
           (Inr \<lparr>status = HTTP_NOT_FOUND,
                 body = json_dumps (JDict
                   [(''error'', JStr (WRONG_MODEL_SPEC d model_name requested_version))])\<rparr>,
            call Serialize w1)
         else
           (case py_int requested_version of
              Inl e \<Rightarrow> (Inl e, w1)
            | Inr rv \<Rightarrow>
                (case ms model_name of
                   None \<Rightarrow> (Inl KeyError, w1)
                 | Some m \<Rightarrow>
                     if rv \<noteq> 0 then
                       (case map_of (versions_statuses m) rv of
                          None \<Rightarrow> (Inl KeyError, w1)
                        | Some version_status \<Rightarrow>
                            (Inr \<lparr>status = HTTP_200,
                                  body = StatusToJson
                                    (add_status_to_response version_status
                                       \<lparr>model_version_status = []\<rparr>) True\<rparr>,
                             call Serialize w1))
                     else
                       (Inr \<lparr>status = HTTP_200,
                             body = StatusToJson
                               (foldl (\<lambda>response version_status.
                                         add_status_to_response version_status response)
                                  \<lparr>model_version_status = []\<rparr>
                                  (map snd (versions_statuses m))) True\<rparr>,
                        call Serialize w1))))"

subsection \<open>\<^verbatim>\<open>GetModelMetadata.on_get\<close>\<close>

definition GetModelMetadata_on_get ::
  "deps \<Rightarrow> models \<Rightarrow> string \<Rightarrow> pyval \<Rightarrow> world \<Rightarrow> (exn + resp) \<times> world" where
  "GetModelMetadata_on_get d ms model_name requested_version w =
     (let (valid_model_spec, version) =
            check_availability_of_requested_model d ms requested_version model_name;
          w1 = call CheckModel w
      in if \<not> valid_model_spec then
           (Inr \<lparr>status = HTTP_NOT_FOUND,
                 body = json_dumps (JDict
                   [(''error'', JStr (WRONG_MODEL_SPEC d model_name requested_version))])\<rparr>,
            call Serialize w1)
         else
           (case lookup_engine ms model_name version of
              Inl e \<Rightarrow> (Inl e, w1)
            | Inr e \<Rightarrow>
                (let w2 = acquire (model_name, version) w1;
                     w3 = call (ReadMetadata (model_name, version)) w2;
                     inputs = input_tensors e;
                     outputs = output_tensors e;
                     signature_def =
                       prepare_get_metadata_output d inputs outputs (model_keys e);
                     response =
                       \<lparr>model_spec_name = model_name,
                        model_spec_version_value = version,
                        metadata =
                          [(''signature_def'', [(''serving_default'', signature_def)])]\<rparr>;
                     w4 = release (model_name, version) w3
                 in if \<not> int64 version then (Inl ValueError, w3)
                    else (Inr \<lparr>status = HTTP_200, body = MetadataToJson response\<rparr>,
                          call Serialize w4))))"

subsection \<open>\<^verbatim>\<open>Predict.on_post\<close>\<close>

text \<open>
  \<^verbatim>\<open>req.media\<close> is the parsed body of the request, or falcon's error for a body that
  does not parse.
\<close>

record req =
  media :: "exn + json"

definition Predict_on_post ::
  "deps \<Rightarrow> models \<Rightarrow> req \<Rightarrow> string \<Rightarrow> pyval \<Rightarrow> world \<Rightarrow> (exn + resp) \<times> world" where
  "Predict_on_post d ms rq model_name requested_version w =
     (let (valid_model_spec, version) =
            check_availability_of_requested_model d ms requested_version model_name;
          w1 = call CheckModel w
      in if \<not> valid_model_spec then
           (Inr \<lparr>status = HTTP_NOT_FOUND,
                 body = json_dumps (JDict
                   [(''error'', JStr (WRONG_MODEL_SPEC d model_name requested_version))])\<rparr>,
            call Serialize w1)
         else
           (let w2 = call Media w1 in
            case media rq of
              Inl e \<Rightarrow> (Inl e, w2)
            | Inr (JDict items) \<Rightarrow>
                (case lookup_engine ms model_name version of
                   Inl e \<Rightarrow> (Inl e, w2)
                 | Inr e \<Rightarrow>
                     (let input_format = get_input_format d items (input_key_names e);
                          w3 = call GetInputFormat w2
                      in if input_format = INVALID_FORMAT then
                           (Inr \<lparr>status = HTTP_400,
                                 body = json_dumps (JDict
                                   [(''error'', JStr ''Invalid inputs in request body'')])\<rparr>,
                            call Serialize w3)
                         else
                           (let inputs = preprocess_json_request d items input_format
                                           (input_key_names e);
                                w4 = call Preprocess w3;
                                (occurred_problem, inference_input, batch_size, code) =
                                  prepare_input_data d ms model_name version inputs True;
                                w5 = call PrepareInputData w4
                            in if occurred_problem then
                                 (Inr \<lparr>status = code,
                                       body = json_dumps (JDict
                                         [(''error'', inference_input)])\<rparr>,
                                  call Serialize w5)
                               else
                                 (let w6 = acquire (model_name, version) w5;
                                      w7 = call (Infer (model_name, version)) w6
                                  in case infer e inference_input batch_size of
                                       Inl ValueError \<Rightarrow>
                                         (Inr \<lparr>status = HTTP_400,
                                               body = json_dumps (JDict
                                                 [(''error'', JStr ''Malformed input data'')])\<rparr>,
                                          call Serialize (release (model_name, version) w7))
                                     | Inl err \<Rightarrow> (Inl err, w7)
                                     | Inr inference_output \<Rightarrow>
                                         (let w8 = release (model_name, version) w7;
                                              inference_output =
                                                map (\<lambda>(key, value). (key, tolist value))
                                                  inference_output
                                          in case OUTPUT_REPRESENTATION input_format of
                                               None \<Rightarrow> (Inl KeyError, w8)
                                             | Some output_representation \<Rightarrow>
                                                 (Inr \<lparr>status = HTTP_200,
                                                       body = json_dumps
                                                         (prepare_json_response d
                                                            output_representation
                                                            inference_output
                                                            (mk_outputs (model_keys e)))\<rparr>,
                                                  call Serialize w8))))))
            | Inr other \<Rightarrow>
                (Inr \<lparr>status = HTTP_400,
                      body = json_dumps (JDict
                        [(''error'', JStr ''Invalid JSON in request body'')])\<rparr>,
                 call Serialize w2)))"

section \<open>Notions used to state the properties\<close>

text \<open>The calls a handler has added to the world it started in.\<close>

definition new_calls :: "world \<Rightarrow> world \<Rightarrow> event list" where
  "new_calls w w' = drop (length (calls w)) (calls w')"


text \<open>
  A request names a version with no available record: a specific version that is not
  AVAILABLE, the latest version when none is AVAILABLE, or a text that is no integer.
\<close>

definition no_available_record :: "model \<Rightarrow> pyval \<Rightarrow> bool" where
  "no_available_record m requested_version =
     (case py_int requested_version of
        Inl e \<Rightarrow> True
      | Inr v \<Rightarrow>
          if v = 0 then available_versions m = []
          else v \<notin> set (available_versions m))"

text \<open>
  The four validation phases of \<^verbatim>\<open>Predict.on_post\<close> all pass: the model and version are
  available, the body is a dict, its input format is not invalid, and the input data
  deserialize without a problem.
\<close>

definition passes_validation :: "deps \<Rightarrow> models \<Rightarrow> req \<Rightarrow> string \<Rightarrow> pyval \<Rightarrow> bool" where
  "passes_validation d ms rq model_name requested_version =
     (case check_availability_of_requested_model d ms requested_version model_name of
        (valid_model_spec, version) \<Rightarrow>
          valid_model_spec \<and>
          (case media rq of
             Inr (JDict items) \<Rightarrow>
               (case lookup_engine ms model_name version of
                  Inl e \<Rightarrow> False
                | Inr e \<Rightarrow>
                    get_input_format d items (input_key_names e) \<noteq> INVALID_FORMAT \<and>
                    \<not> fst (prepare_input_data d ms model_name version
                             (preprocess_json_request d items
                                (get_input_format d items (input_key_names e))
                                (input_key_names e)) True))
           | _ \<Rightarrow> False))"

section \<open>A concrete server\<close>

text \<open>
  One model, \<^verbatim>\<open>resnet\<close>, with version 1 AVAILABLE and loaded, version 2 AVAILABLE with an
  engine whose runtime fails, and version 4 retired.
\<close>

definition resnet_io :: "tensors \<times> tensors" where
  "resnet_io =
     ([(''input'', \<lparr>dtype = 1, shape = [1, 3, 224, 224]\<rparr>)],
      [(''resnet_v1_50/predictions/Reshape_1'', \<lparr>dtype = 1, shape = [1, 1000]\<rparr>)])"

definition resnet_keys :: model_keys where
  "resnet_keys =
     \<lparr>mk_inputs = [(''input'', ''input'')],
      mk_outputs = [(''resnet_v1_50/predictions/Reshape_1'',
                     ''resnet_v1_50/predictions/Reshape_1'')]\<rparr>"

text \<open>
  The runtime of version 1 rejects an empty input with \<^verbatim>\<open>ValueError\<close> and answers any other
  input; the runtime of version 2 fails with \<^verbatim>\<open>RuntimeError\<close>.
\<close>

definition engine_v1 :: engine where
  "engine_v1 =
     \<lparr>input_key_names = [''input''],
      input_tensors = fst resnet_io,
      output_tensors = snd resnet_io,
      model_keys = resnet_keys,
      infer = (\<lambda>data batch_size.
                 if data = JList [] then Inl ValueError
                 else Inr [(''resnet_v1_50/predictions/Reshape_1'',
                            NDArray (JList [JList [JInt 0, JInt 1]]))])\<rparr>"

definition engine_v2 :: engine where
  "engine_v2 = engine_v1\<lparr>infer := (\<lambda>data batch_size. Inl (Exception ''RuntimeError''))\<rparr>"

definition status_of :: "int \<Rightarrow> state \<Rightarrow> version_status" where
  "status_of v s =
     \<lparr>vs_version = v, vs_state = s, vs_error_code = OK, vs_error_message = ''OK''\<rparr>"

definition resnet :: model where
  "resnet =
     \<lparr>versions_statuses =
        [(1, status_of 1 AVAILABLE), (2, status_of 2 AVAILABLE), (4, status_of 4 END)],
      engines = [1 \<mapsto> engine_v1, 2 \<mapsto> engine_v2]\<rparr>"

definition served :: models where
  "served = [''resnet'' \<mapsto> resnet]"

text \<open>
  Collaborators for the concrete server: the availability checks as modelled above, an
  input format read off the keys of the body, and input data that deserialize unless the
  tensor is a string.
\<close>

definition served_deps :: deps where
  "served_deps =
     \<lparr>check_availability_of_requested_status = status_available,
      check_availability_of_requested_model = model_available,
      WRONG_MODEL_SPEC = (\<lambda>model_name requested_version.
         ''Servable not found for request: '' @ model_name),
      get_input_format = (\<lambda>items input_key_names.
         case (map_of items ''instances'', map_of items ''inputs'') of
           (Some x, None) \<Rightarrow> ROW_FORMAT
         | (None, Some x) \<Rightarrow> COLUMN_FORMAT
         | _ \<Rightarrow> INVALID_FORMAT),
      preprocess_json_request = (\<lambda>items input_format input_key_names.
         case map_of items ''instances'' of
           Some x \<Rightarrow> x
         | None \<Rightarrow> (case map_of items ''inputs'' of Some x \<Rightarrow> x | None \<Rightarrow> JNull)),
      prepare_input_data = (\<lambda>ms model_name version data rest.
         case data of
           JStr s \<Rightarrow> (True, JStr ''Invalid input data'', 0, HTTP_400)
         | _ \<Rightarrow> (False, data, 1, HTTP_200)),
      prepare_get_metadata_output = (\<lambda>inputs outputs keys. SignatureDef inputs outputs),
      row_formatting = (\<lambda>inference_output keys. JList (map snd inference_output)),
      column_formatting = (\<lambda>inference_output keys. JDict inference_output)\<rparr>"

definition idle :: world where
  "idle = \<lparr>in_use = (\<lambda>k. 0), calls = []\<rparr>"

definition row_request :: req where
  "row_request = \<lparr>media = Inr (JDict [(''instances'', JList [JList [JInt 7]])])\<rparr>"

definition column_request :: req where
  "column_request = \<lparr>media = Inr (JDict [(''inputs'', JList [JList [JInt 7]])])\<rparr>"

definition empty_request :: req where
  "empty_request = \<lparr>media = Inr (JDict [(''instances'', JList [])])\<rparr>"

definition text_request :: req where
  "text_request = \<lparr>media = Inr (JDict [(''instances'', JStr ''abc'')])\<rparr>"

definition keyless_request :: req where
  "keyless_request = \<lparr>media = Inr (JDict [(''data'', JList [])])\<rparr>"

definition list_request :: req where
  "list_request = \<lparr>media = Inr (JList [JInt 7])\<rparr>"

section \<open>Auxiliary facts\<close>

lemmas handler_defs = Let_def call_def acquire_def release_def

lemma model_available_fails:
  "(case ms model_name of None \<Rightarrow> True | Some m \<Rightarrow> no_available_record m requested_version)
   \<Longrightarrow> fst (model_available ms requested_version model_name) = False"
  by (auto simp: model_available_def no_available_record_def
           split: option.splits sum.splits if_splits list.splits)

lemma foldl_add_status:
  "foldl (\<lambda>response version_status. add_status_to_response version_status response) r xs =
     r\<lparr>model_version_status := model_version_status r @ xs\<rparr>"
  by (induction xs arbitrary: r) (simp_all add: add_status_to_response_def)

lemma add_all_statuses:
  "foldl (\<lambda>response version_status. add_status_to_response version_status response)
     \<lparr>model_version_status = []\<rparr> xs = \<lparr>model_version_status = xs\<rparr>"
  by (simp add: foldl_add_status)




lemmas int_defs =
  int_of_str_def strip_def is_space_def digit_val_def decimal_zeros_def ascii_def

lemma int_of_str_zero: "int_of_str (ascii ''0'') = Inr 0"
  by (simp add: int_defs)

lemma int_of_str_versions:
  "int_of_str (ascii ''1'') = Inr 1"
  "int_of_str (ascii ''3'') = Inr 3"
  "int_of_str (ascii ''4'') = Inr 4"
  "int_of_str (ascii ''99'') = Inr 99"
  by (simp_all add: int_defs)

text \<open>
  \<^verbatim>\<open>int\<close> at the edges of its grammar: the separator 28 is no whitespace, the no-break
  space 160 and the next line 133 are; a digit of another script counts; underscores
  stand between digits only; nothing stands between the sign and the digits.
\<close>

lemma int_of_str_examples:
  "int_of_str [0x1C, 0x34] = Inl ValueError"
  "int_of_str [0xA0, 0x34] = Inr 4"
  "int_of_str [0x34, 0x85] = Inr 4"
  "int_of_str [0x664] = Inr 4"
  "int_of_str [0x31, 0x662] = Inr 12"
  "int_of_str (ascii '' +1_2 '') = Inr 12"
  "int_of_str (ascii ''1__2'') = Inl ValueError"
  "int_of_str (ascii ''_12'') = Inl ValueError"
  "int_of_str (ascii ''12_'') = Inl ValueError"
  "int_of_str (ascii ''+ 1'') = Inl ValueError"
  "int_of_str (ascii ''-7'') = Inr (- 7)"
  "int_of_str (ascii ''0012'') = Inr 12"
  "int_of_str (ascii ''4a'') = Inl ValueError"
  "int_of_str [0x1FBF4] = Inr 4"
  "int_of_str [] = Inl ValueError"
  by (simp_all add: int_defs)

lemma HTTP_distinct: "HTTP_200 \<noteq> HTTP_NOT_FOUND" "HTTP_400 \<noteq> HTTP_NOT_FOUND" "HTTP_200 \<noteq> HTTP_400"
  by (simp_all add: HTTP_200_def HTTP_NOT_FOUND_def HTTP_400_def)



lemma served_check_model: "check_availability_of_requested_model served_deps = model_available"
  by (simp add: served_deps_def)


lemmas resnet_defs = served_def resnet_def status_of_def available_versions_def

lemma resnet_available:
  "model_available served (PyStr (ascii ''1'')) ''resnet'' = (True, 1)"
  "model_available served (PyStr (ascii ''99'')) ''resnet'' = (False, 0)"
  by (simp_all add: model_available_def int_of_str_versions resnet_defs)

lemma resnet_status:
  "\<not> status_available served (PyStr (ascii ''99'')) ''resnet''"
  "status_available served (PyStr (ascii ''0'')) ''resnet''"
  "status_available served (PyInt 0) ''resnet''"
  by (simp_all add: status_available_def int_of_str_versions int_of_str_zero resnet_defs)

lemma served_v1: "check_availability_of_requested_model served_deps served (PyStr (ascii ''1'')) ''resnet'' = (True, 1)"
  by (simp add: served_deps_def resnet_available)

lemma served_v99: "\<not> fst (check_availability_of_requested_model served_deps served (PyStr (ascii ''99'')) ''resnet'')"
  by (simp add: served_deps_def resnet_available)

lemma served_engine_v1: "lookup_engine served ''resnet'' 1 = Inr engine_v1"
  by (simp add: lookup_engine_def served_def resnet_def)

section \<open>The properties\<close>

subsection \<open>C1: release on every exit path of the Predict handler\<close>

text \<open>
  After \<^verbatim>\<open>Predict.on_post\<close> the in-use counts are those before the call on every path
  but one: an exception of \<^verbatim>\<open>infer\<close> that \<^verbatim>\<open>except ValueError\<close> does not catch leaves the
  handler with the engine still acquired.
\<close>

lemma Predict_in_use_restored_unless_infer_escapes:
  "in_use (snd (Predict_on_post d ms rq model_name requested_version w)) = in_use w \<or>
   (\<exists>version e inference_input batch_size err.
      lookup_engine ms model_name version = Inr e \<and>
      infer e inference_input batch_size = Inl err \<and> err \<noteq> ValueError \<and>
      fst (Predict_on_post d ms rq model_name requested_version w) = Inl err \<and>
      in_use (snd (Predict_on_post d ms rq model_name requested_version w)) =
        (in_use w)((model_name, version) := in_use w (model_name, version) + 1))"
  by (simp add: Predict_on_post_def handler_defs OUTPUT_REPRESENTATION_def
        split: prod.splits sum.splits json.splits exn.splits) blast

text \<open>
  Claim C1: for every execution of \<^verbatim>\<open>Predict.on_post\<close> that acquires an engine, the
  matching release is performed on every exit path, also where \<^verbatim>\<open>infer\<close> raises, so that
  the in-use count returns to its value before the call. The handler releases after a
  successful \<^verbatim>\<open>infer\<close> and in its handler for \<^verbatim>\<open>ValueError\<close>, and misses every other
  exception. On the concrete server a row request for the latest version of \<^verbatim>\<open>resnet\<close>
  reaches the engine of version 2, whose runtime fails with \<^verbatim>\<open>RuntimeError\<close>: the exception
  leaves the handler after the acquisition and the call of \<^verbatim>\<open>infer\<close>, there is no release,
  and the in-use count of the engine is 1 where it was 0.
\<close>

theorem Predict_runtime_error_leaves_engine_acquired:
  "fst (Predict_on_post served_deps served row_request ''resnet'' (PyInt 0) idle) =
     Inl (Exception ''RuntimeError'') \<and>
   calls (snd (Predict_on_post served_deps served row_request ''resnet'' (PyInt 0) idle)) =
     [CheckModel, Media, GetInputFormat, Preprocess, PrepareInputData,
      Acquire (''resnet'', 2), Infer (''resnet'', 2)] \<and>
   in_use idle (''resnet'', 2) = 0 \<and>
   in_use (snd (Predict_on_post served_deps served row_request ''resnet'' (PyInt 0) idle))
     (''resnet'', 2) = 1"
  by code_simp

subsection \<open>C2: unknown model or version in Predict\<close>

text \<open>
  Claim C2: a Predict request that names an unknown model, or a version with no available
  record, is answered with 404 Not Found and a JSON object with the key \<^verbatim>\<open>error\<close>. The
  handler makes no call but the availability check and the serialisation of the answer: it
  acquires no engine, does not call \<^verbatim>\<open>infer\<close>, and leaves the in-use counts as they were.
  The availability check is the one modelled from the specification.
\<close>

theorem Predict_not_found:
  assumes "check_availability_of_requested_model d = model_available"
    and "case ms model_name of None \<Rightarrow> True
         | Some m \<Rightarrow> no_available_record m requested_version"
  shows "Predict_on_post d ms rq model_name requested_version w =
           (Inr \<lparr>status = HTTP_NOT_FOUND,
                 body = json_dumps (JDict
                   [(''error'', JStr (WRONG_MODEL_SPEC d model_name requested_version))])\<rparr>,
            w\<lparr>calls := calls w @ [CheckModel, Serialize]\<rparr>)"
proof -
  have "\<not> fst (model_available ms requested_version model_name)"
    using assms(2) by (simp add: model_available_fails)
  with assms(1) show ?thesis
    by (cases "model_available ms requested_version model_name")
       (simp add: Predict_on_post_def handler_defs)
qed

text \<open>
  Scenario S5 of the specification on the concrete server: Predict on version 99 of
  \<^verbatim>\<open>resnet\<close>.
\<close>

theorem Predict_not_found_witness:
  "check_availability_of_requested_model served_deps = model_available \<and>
   (case served ''resnet'' of None \<Rightarrow> True | Some m \<Rightarrow> no_available_record m (PyStr (ascii ''99''))) \<and>
   Predict_on_post served_deps served row_request ''resnet'' (PyStr (ascii ''99'')) idle =
     (Inr \<lparr>status = HTTP_NOT_FOUND,
           body = json_dumps (JDict
             [(''error'', JStr (WRONG_MODEL_SPEC served_deps ''resnet'' (PyStr (ascii ''99''))))])\<rparr>,
      idle\<lparr>calls := calls idle @ [CheckModel, Serialize]\<rparr>)"
proof -
  have h: "case served ''resnet'' of None \<Rightarrow> True
           | Some m \<Rightarrow> no_available_record m (PyStr (ascii ''99''))"
    by (simp add: no_available_record_def int_of_str_versions resnet_defs)
  from Predict_not_found
         [where ms = served and model_name = "''resnet''" and requested_version = "PyStr (ascii ''99'')",
          OF served_check_model h]
       served_check_model h
  show ?thesis by blast
qed

subsection \<open>C3: the response mirrors the input format\<close>

text \<open>
  Claim C3: for every valid Predict request (the model and version are available, the body
  is a dict, the input data deserialize and \<^verbatim>\<open>infer\<close> returns), a row-format input yields
  a 200 response whose only top-level key is \<^verbatim>\<open>predictions\<close>, and a column-format input
  one whose only top-level key is \<^verbatim>\<open>outputs\<close>. The table of output representations and
  the layout of the response are the ones modelled from the specification.
\<close>

theorem Predict_response_mirrors_input_format:
  assumes "check_availability_of_requested_model d ms requested_version model_name = (True, version)"
    and "media rq = Inr (JDict items)"
    and "lookup_engine ms model_name version = Inr e"
    and "get_input_format d items (input_key_names e) = fmt"
    and "prepare_input_data d ms model_name version
           (preprocess_json_request d items fmt (input_key_names e)) True
         = (False, inference_input, batch_size, code)"
    and "infer e inference_input batch_size = Inr inference_output"
  shows "(fmt = ROW_FORMAT \<longrightarrow>
            (\<exists>rows. fst (Predict_on_post d ms rq model_name requested_version w) =
               Inr \<lparr>status = HTTP_200,
                     body = json_dumps (JDict [(''predictions'', rows)])\<rparr>)) \<and>
         (fmt = COLUMN_FORMAT \<longrightarrow>
            (\<exists>columns. fst (Predict_on_post d ms rq model_name requested_version w) =
               Inr \<lparr>status = HTTP_200,
                     body = json_dumps (JDict [(''outputs'', columns)])\<rparr>))"
  using assms
  by (cases fmt)
     (simp_all add: Predict_on_post_def handler_defs OUTPUT_REPRESENTATION_def
        prepare_json_response_def)

text \<open>
  A row request and a column request for version 1 of \<^verbatim>\<open>resnet\<close> on the concrete server.
\<close>

theorem Predict_response_mirrors_input_format_witness:
  "(\<exists>rows. fst (Predict_on_post served_deps served row_request ''resnet'' (PyStr (ascii ''1'')) idle) =
      Inr \<lparr>status = HTTP_200, body = json_dumps (JDict [(''predictions'', rows)])\<rparr>) \<and>
   (\<exists>columns.
      fst (Predict_on_post served_deps served column_request ''resnet'' (PyStr (ascii ''1'')) idle) =
      Inr \<lparr>status = HTTP_200, body = json_dumps (JDict [(''outputs'', columns)])\<rparr>)"
proof -
  have row:
    "media row_request = Inr (JDict [(''instances'', JList [JList [JInt 7]])])"
    "get_input_format served_deps [(''instances'', JList [JList [JInt 7]])]
       (input_key_names engine_v1) = ROW_FORMAT"
    "prepare_input_data served_deps served ''resnet'' 1
       (preprocess_json_request served_deps [(''instances'', JList [JList [JInt 7]])]
          ROW_FORMAT (input_key_names engine_v1)) True
     = (False, JList [JList [JInt 7]], 1, HTTP_200)"
    by (simp_all add: row_request_def served_deps_def)
  have col:
    "media column_request = Inr (JDict [(''inputs'', JList [JList [JInt 7]])])"
    "get_input_format served_deps [(''inputs'', JList [JList [JInt 7]])]
       (input_key_names engine_v1) = COLUMN_FORMAT"
    "prepare_input_data served_deps served ''resnet'' 1
       (preprocess_json_request served_deps [(''inputs'', JList [JList [JInt 7]])]
          COLUMN_FORMAT (input_key_names engine_v1)) True
     = (False, JList [JList [JInt 7]], 1, HTTP_200)"
    by (simp_all add: column_request_def served_deps_def)
  have inf: "infer engine_v1 (JList [JList [JInt 7]]) 1 =
      Inr [(''resnet_v1_50/predictions/Reshape_1'', NDArray (JList [JList [JInt 0, JInt 1]]))]"
    by (simp add: engine_v1_def)
  from Predict_response_mirrors_input_format
         [OF served_v1 row(1) served_engine_v1 row(2) row(3) inf, of idle]
       Predict_response_mirrors_input_format
         [OF served_v1 col(1) served_engine_v1 col(2) col(3) inf, of idle]
  show ?thesis by simp
qed

subsection \<open>C4: GetModelStatus\<close>



subsection \<open>C5: GetModelMetadata\<close>

text \<open>
  The version of the response is an int64 of protobuf: a resolved version outside its
  range makes the assignment raise, after the acquisition and before the release.
\<close>

lemma GetModelMetadata_version_out_of_range:
  assumes "check_availability_of_requested_model d ms requested_version model_name = (True, version)"
    and "lookup_engine ms model_name version = Inr e"
    and "\<not> int64 version"
  shows "fst (GetModelMetadata_on_get d ms model_name requested_version w) = Inl ValueError \<and>
         new_calls w (snd (GetModelMetadata_on_get d ms model_name requested_version w)) =
           [CheckModel, Acquire (model_name, version), ReadMetadata (model_name, version)]"
  using assms
  by (simp add: GetModelMetadata_on_get_def handler_defs new_calls_def)

text \<open>
  Claim C5: a successful \<^verbatim>\<open>GetModelMetadata.on_get\<close> resolves the model and version,
  acquires the engine, reads its metadata, releases the engine and then serialises the
  response, in this order; the response holds the signature under the sole key
  \<^verbatim>\<open>serving_default\<close> of \<^verbatim>\<open>signature_def\<close>, the requested model name and the resolved
  version; the in-use counts are those before the call. The successful requests, those
  answered with 200, are the ones whose resolution gives a version that has an engine and
  fits the int64 of the response. When the resolution finds no available version, the
  answer is 404 Not Found and no engine is acquired.
\<close>

theorem GetModelMetadata_order_and_response:
  "(check_availability_of_requested_model d ms requested_version model_name = (True, version) \<and>
    lookup_engine ms model_name version = Inr e \<and> int64 version \<longrightarrow>
      GetModelMetadata_on_get d ms model_name requested_version w =
        (Inr \<lparr>status = HTTP_200,
              body = MetadataToJson
                \<lparr>model_spec_name = model_name,
                 model_spec_version_value = version,
                 metadata =
                   [(''signature_def'',
                     [(''serving_default'',
                       prepare_get_metadata_output d (input_tensors e) (output_tensors e)
                         (model_keys e))])]\<rparr>\<rparr>,
         w\<lparr>calls := calls w @
              [CheckModel, Acquire (model_name, version), ReadMetadata (model_name, version),
               Release (model_name, version), Serialize]\<rparr>)) \<and>
   ((\<exists>r. fst (GetModelMetadata_on_get d ms model_name requested_version w) = Inr r \<and>
         status r = HTTP_200) \<longrightarrow>
      (\<exists>v a. check_availability_of_requested_model d ms requested_version model_name = (True, v) \<and>
             lookup_engine ms model_name v = Inr a \<and> int64 v)) \<and>
   (\<not> fst (check_availability_of_requested_model d ms requested_version model_name) \<longrightarrow>
      GetModelMetadata_on_get d ms model_name requested_version w =
        (Inr \<lparr>status = HTTP_NOT_FOUND,
              body = json_dumps (JDict
                [(''error'', JStr (WRONG_MODEL_SPEC d model_name requested_version))])\<rparr>,
         w\<lparr>calls := calls w @ [CheckModel, Serialize]\<rparr>))"
proof (cases "check_availability_of_requested_model d ms requested_version model_name")
  case (Pair valid v)
  show ?thesis
  proof (cases valid)
    case False
    with Pair show ?thesis
      by (simp add: GetModelMetadata_on_get_def handler_defs HTTP_distinct [symmetric])
  next
    case True
    with Pair show ?thesis
      by (cases "lookup_engine ms model_name v"; cases "int64 v")
         (simp_all add: GetModelMetadata_on_get_def handler_defs)
  qed
qed

text \<open>
  Metadata of version 1 and of the missing version 99 of \<^verbatim>\<open>resnet\<close> on the concrete server.
\<close>

theorem GetModelMetadata_order_and_response_witness:
  "int64 1 \<and>
   GetModelMetadata_on_get served_deps served ''resnet'' (PyStr (ascii ''1'')) idle =
     (Inr \<lparr>status = HTTP_200,
           body = MetadataToJson
             \<lparr>model_spec_name = ''resnet'',
              model_spec_version_value = 1,
              metadata =
                [(''signature_def'',
                  [(''serving_default'',
                    prepare_get_metadata_output served_deps (input_tensors engine_v1)
                      (output_tensors engine_v1) (model_keys engine_v1))])]\<rparr>\<rparr>,
      idle\<lparr>calls := calls idle @
             [CheckModel, Acquire (''resnet'', 1), ReadMetadata (''resnet'', 1),
              Release (''resnet'', 1), Serialize]\<rparr>) \<and>
   (\<exists>v a. check_availability_of_requested_model served_deps served (PyStr (ascii ''1''))
             ''resnet'' = (True, v) \<and>
          lookup_engine served ''resnet'' v = Inr a \<and> int64 v) \<and>
   GetModelMetadata_on_get served_deps served ''resnet'' (PyStr (ascii ''99'')) idle =
     (Inr \<lparr>status = HTTP_NOT_FOUND,
           body = json_dumps (JDict
             [(''error'', JStr (WRONG_MODEL_SPEC served_deps ''resnet'' (PyStr (ascii ''99''))))])\<rparr>,
      idle\<lparr>calls := calls idle @ [CheckModel, Serialize]\<rparr>)"
proof -
  have r: "int64 1"
    by (simp add: int64_def)
  note v1 = GetModelMetadata_order_and_response
          [of served_deps served "PyStr (ascii ''1'')" "''resnet''" 1 engine_v1 idle]
  note v99 = GetModelMetadata_order_and_response
          [of served_deps served "PyStr (ascii ''99'')" "''resnet''" 1 engine_v1 idle]
  from v1 served_v1 served_engine_v1 r
  have a: "GetModelMetadata_on_get served_deps served ''resnet'' (PyStr (ascii ''1'')) idle =
     (Inr \<lparr>status = HTTP_200,
           body = MetadataToJson
             \<lparr>model_spec_name = ''resnet'',
              model_spec_version_value = 1,
              metadata =
                [(''signature_def'',
                  [(''serving_default'',
                    prepare_get_metadata_output served_deps (input_tensors engine_v1)
                      (output_tensors engine_v1) (model_keys engine_v1))])]\<rparr>\<rparr>,
      idle\<lparr>calls := calls idle @
             [CheckModel, Acquire (''resnet'', 1), ReadMetadata (''resnet'', 1),
              Release (''resnet'', 1), Serialize]\<rparr>)"
    by blast
  have s: "\<exists>r. fst (GetModelMetadata_on_get served_deps served ''resnet''
                     (PyStr (ascii ''1'')) idle) = Inr r \<and> status r = HTTP_200"
    by (simp add: a)
  from v1 s
  have b: "\<exists>v a. check_availability_of_requested_model served_deps served (PyStr (ascii ''1''))
             ''resnet'' = (True, v) \<and>
          lookup_engine served ''resnet'' v = Inr a \<and> int64 v"
    by blast
  from v99 served_v99
  have c: "GetModelMetadata_on_get served_deps served ''resnet'' (PyStr (ascii ''99'')) idle =
     (Inr \<lparr>status = HTTP_NOT_FOUND,
           body = json_dumps (JDict
             [(''error'', JStr (WRONG_MODEL_SPEC served_deps ''resnet'' (PyStr (ascii ''99''))))])\<rparr>,
      idle\<lparr>calls := calls idle @ [CheckModel, Serialize]\<rparr>)"
    by blast
  from r a b c show ?thesis by blast
qed

subsection \<open>C6: failure of the inference runtime\<close>

text \<open>
  Claim C6 as stated, that every Predict request whose \<^verbatim>\<open>infer\<close> raises is answered with
  400 and the body \<^verbatim>\<open>{"error": "Malformed input data"}\<close>, fails on the concrete server: the
  runtime of version 2 raises \<^verbatim>\<open>RuntimeError\<close>, \<^verbatim>\<open>infer\<close> has been called, and the handler
  does not give that answer (the exception leaves it).
\<close>

theorem Predict_runtime_error_not_400:
  "infer engine_v2 (JList [JList [JInt 7]]) 1 = Inl (Exception ''RuntimeError'') \<and>
   Infer (''resnet'', 2) \<in>
     set (calls (snd (Predict_on_post served_deps served row_request ''resnet'' (PyInt 0) idle))) \<and>
   fst (Predict_on_post served_deps served row_request ''resnet'' (PyInt 0) idle) \<noteq>
     Inr \<lparr>status = HTTP_400,
           body = json_dumps (JDict [(''error'', JStr ''Malformed input data'')])\<rparr>"
  by code_simp

text \<open>
  Claim C6, amended: for every Predict request whose \<^verbatim>\<open>infer\<close> raises \<^verbatim>\<open>ValueError\<close>, the
  handler answers 400 with the body \<^verbatim>\<open>{"error": "Malformed input data"}\<close> and releases the
  engine before it serialises the answer and returns; the in-use counts are those before
  the call.
\<close>

theorem Predict_value_error_400:
  assumes "check_availability_of_requested_model d ms requested_version model_name = (True, version)"
    and "media rq = Inr (JDict items)"
    and "lookup_engine ms model_name version = Inr e"
    and "get_input_format d items (input_key_names e) = fmt"
    and "fmt \<noteq> INVALID_FORMAT"
    and "prepare_input_data d ms model_name version
           (preprocess_json_request d items fmt (input_key_names e)) True
         = (False, inference_input, batch_size, code)"
    and "infer e inference_input batch_size = Inl ValueError"
  shows "Predict_on_post d ms rq model_name requested_version w =
           (Inr \<lparr>status = HTTP_400,
                 body = json_dumps (JDict [(''error'', JStr ''Malformed input data'')])\<rparr>,
            w\<lparr>calls := calls w @
                 [CheckModel, Media, GetInputFormat, Preprocess, PrepareInputData,
                  Acquire (model_name, version), Infer (model_name, version),
                  Release (model_name, version), Serialize]\<rparr>)"
  using assms
  by (simp add: Predict_on_post_def handler_defs)

text \<open>
  An empty row request for version 1 of \<^verbatim>\<open>resnet\<close>, whose runtime rejects it.
\<close>

theorem Predict_value_error_400_witness:
  "infer engine_v1 (JList []) 1 = Inl ValueError \<and>
   Predict_on_post served_deps served empty_request ''resnet'' (PyStr (ascii ''1'')) idle =
     (Inr \<lparr>status = HTTP_400,
           body = json_dumps (JDict [(''error'', JStr ''Malformed input data'')])\<rparr>,
      idle\<lparr>calls := calls idle @
             [CheckModel, Media, GetInputFormat, Preprocess, PrepareInputData,
              Acquire (''resnet'', 1), Infer (''resnet'', 1),
              Release (''resnet'', 1), Serialize]\<rparr>)"
proof -
  have h:
    "media empty_request = Inr (JDict [(''instances'', JList [])])"
    "get_input_format served_deps [(''instances'', JList [])]
       (input_key_names engine_v1) = ROW_FORMAT"
    "ROW_FORMAT \<noteq> INVALID_FORMAT"
    "prepare_input_data served_deps served ''resnet'' 1
       (preprocess_json_request served_deps [(''instances'', JList [])]
          ROW_FORMAT (input_key_names engine_v1)) True
     = (False, JList [], 1, HTTP_200)"
    "infer engine_v1 (JList []) 1 = Inl ValueError"
    by (simp_all add: empty_request_def served_deps_def engine_v1_def)
  from Predict_value_error_400
         [OF served_v1 h(1) served_engine_v1 h(2) h(3) h(4) h(5), of idle] h(5)
  show ?thesis by blast
qed

subsection \<open>C7: invalid request bodies\<close>

text \<open>
  Claim C7 as stated, for every Predict request, fails where the model or version is not
  available: on the concrete server a dict body that matches neither format and a body
  that is a list, sent to version 99 of \<^verbatim>\<open>resnet\<close>, are not answered with 400; the second
  is answered with 404 Not Found.
\<close>

theorem Predict_invalid_body_unknown_version_404:
  "media keyless_request = Inr (JDict [(''data'', JList [])]) \<and>
   get_input_format served_deps [(''data'', JList [])] (input_key_names engine_v1) =
     INVALID_FORMAT \<and>
   fst (Predict_on_post served_deps served keyless_request ''resnet'' (PyStr (ascii ''99'')) idle) \<noteq>
     Inr \<lparr>status = HTTP_400,
           body = json_dumps (JDict [(''error'', JStr ''Invalid inputs in request body'')])\<rparr> \<and>
   media list_request = Inr (JList [JInt 7]) \<and>
   fst (Predict_on_post served_deps served list_request ''resnet'' (PyStr (ascii ''99'')) idle) \<noteq>
     Inr \<lparr>status = HTTP_400,
           body = json_dumps (JDict [(''error'', JStr ''Invalid JSON in request body'')])\<rparr> \<and>
   fst (Predict_on_post served_deps served list_request ''resnet'' (PyStr (ascii ''99'')) idle) =
     Inr \<lparr>status = HTTP_NOT_FOUND,
           body = json_dumps (JDict
             [(''error'', JStr ''Servable not found for request: resnet'')])\<rparr>"
  by (simp add: Predict_on_post_def handler_defs served_deps_def resnet_available
        keyless_request_def list_request_def engine_v1_def
        HTTP_400_def HTTP_NOT_FOUND_def)

text \<open>
  Claim C7, amended: for every Predict request whose model and version pass the
  availability check, a parsed body that is not a dict is answered with 400 and the body
  \<^verbatim>\<open>{"error": "Invalid JSON in request body"}\<close>; and a body that is a dict but has the
  invalid input format for the resolved engine is answered with 400 and the body
  \<^verbatim>\<open>{"error": "Invalid inputs in request body"}\<close>.
\<close>

theorem Predict_invalid_body_400:
  assumes "check_availability_of_requested_model d ms requested_version model_name = (True, version)"
  shows "(media rq = Inr j \<and> (\<forall>items. j \<noteq> JDict items) \<longrightarrow>
            fst (Predict_on_post d ms rq model_name requested_version w) =
              Inr \<lparr>status = HTTP_400,
                    body = json_dumps (JDict
                      [(''error'', JStr ''Invalid JSON in request body'')])\<rparr>) \<and>
         (media rq = Inr (JDict items) \<and> lookup_engine ms model_name version = Inr e \<and>
          get_input_format d items (input_key_names e) = INVALID_FORMAT \<longrightarrow>
            fst (Predict_on_post d ms rq model_name requested_version w) =
              Inr \<lparr>status = HTTP_400,
                    body = json_dumps (JDict
                      [(''error'', JStr ''Invalid inputs in request body'')])\<rparr>)"
  using assms
  by (cases j) (simp_all add: Predict_on_post_def handler_defs)

text \<open>
  A list body and a dict body without a known key, sent to version 1 of \<^verbatim>\<open>resnet\<close>.
\<close>

theorem Predict_invalid_body_400_witness:
  "fst (Predict_on_post served_deps served list_request ''resnet'' (PyStr (ascii ''1'')) idle) =
     Inr \<lparr>status = HTTP_400,
           body = json_dumps (JDict [(''error'', JStr ''Invalid JSON in request body'')])\<rparr> \<and>
   fst (Predict_on_post served_deps served keyless_request ''resnet'' (PyStr (ascii ''1'')) idle) =
     Inr \<lparr>status = HTTP_400,
           body = json_dumps (JDict [(''error'', JStr ''Invalid inputs in request body'')])\<rparr>"
proof -
  have l: "media list_request = Inr (JList [JInt 7]) \<and> (\<forall>items. JList [JInt 7] \<noteq> JDict items)"
    by (simp add: list_request_def)
  have k: "media keyless_request = Inr (JDict [(''data'', JList [])]) \<and>
           lookup_engine served ''resnet'' 1 = Inr engine_v1 \<and>
           get_input_format served_deps [(''data'', JList [])] (input_key_names engine_v1) =
             INVALID_FORMAT"
    by (simp add: keyless_request_def served_deps_def served_engine_v1)
  from Predict_invalid_body_400
         [OF served_v1, of list_request "JList [JInt 7]" idle "[(''data'', JList [])]" engine_v1]
       Predict_invalid_body_400
         [OF served_v1, of keyless_request "JList [JInt 7]" idle "[(''data'', JList [])]" engine_v1]
       l k
  show ?thesis by blast
qed

subsection \<open>C8: validation comes before the acquisition\<close>

text \<open>
  Claim C8: in \<^verbatim>\<open>Predict.on_post\<close> every validation phase (availability of the model and
  version, type of the body, input format, deserialisation of the input data) is completed
  before the engine is acquired: an acquisition among the calls of the handler comes after
  the calls of all phases, and all phases have passed. When a phase does not pass, the
  in-use counts are those before the call and the handler neither acquires, nor calls
  \<^verbatim>\<open>infer\<close>, nor releases.
\<close>

theorem Predict_validation_before_acquire:
  "(\<forall>k. Acquire k \<in> set (new_calls w
            (snd (Predict_on_post d ms rq model_name requested_version w))) \<longrightarrow>
        passes_validation d ms rq model_name requested_version \<and>
        (\<exists>rest. new_calls w (snd (Predict_on_post d ms rq model_name requested_version w)) =
           [CheckModel, Media, GetInputFormat, Preprocess, PrepareInputData, Acquire k]
           @ rest)) \<and>
   (\<not> passes_validation d ms rq model_name requested_version \<longrightarrow>
      in_use (snd (Predict_on_post d ms rq model_name requested_version w)) = in_use w \<and>
      (\<forall>k. Acquire k \<notin> set (new_calls w
               (snd (Predict_on_post d ms rq model_name requested_version w))) \<and>
           Infer k \<notin> set (new_calls w
               (snd (Predict_on_post d ms rq model_name requested_version w))) \<and>
           Release k \<notin> set (new_calls w
               (snd (Predict_on_post d ms rq model_name requested_version w)))))"
  by (simp add: Predict_on_post_def passes_validation_def handler_defs new_calls_def
        OUTPUT_REPRESENTATION_def
        split: prod.splits sum.splits json.splits exn.splits)

text \<open>
  On the concrete server a row request for version 1 of \<^verbatim>\<open>resnet\<close> passes the validation
  and acquires the engine; a request with a string for a tensor fails to deserialise.
\<close>

theorem Predict_validation_before_acquire_witness:
  "Acquire (''resnet'', 1) \<in> set (new_calls idle
      (snd (Predict_on_post served_deps served row_request ''resnet'' (PyStr (ascii ''1'')) idle))) \<and>
   passes_validation served_deps served row_request ''resnet'' (PyStr (ascii ''1'')) \<and>
   (\<exists>rest. new_calls idle
        (snd (Predict_on_post served_deps served row_request ''resnet'' (PyStr (ascii ''1'')) idle)) =
      [CheckModel, Media, GetInputFormat, Preprocess, PrepareInputData,
       Acquire (''resnet'', 1)] @ rest) \<and>
   \<not> passes_validation served_deps served text_request ''resnet'' (PyStr (ascii ''1'')) \<and>
   in_use (snd (Predict_on_post served_deps served text_request ''resnet'' (PyStr (ascii ''1'')) idle)) =
     in_use idle"
proof -
  have a: "Acquire (''resnet'', 1) \<in> set (new_calls idle
      (snd (Predict_on_post served_deps served row_request ''resnet'' (PyStr (ascii ''1'')) idle)))"
    by (simp add: Predict_on_post_def handler_defs new_calls_def served_deps_def
          resnet_available served_engine_v1 row_request_def engine_v1_def idle_def
          OUTPUT_REPRESENTATION_def)
  have n: "\<not> passes_validation served_deps served text_request ''resnet'' (PyStr (ascii ''1''))"
    by (simp add: passes_validation_def served_deps_def resnet_available served_engine_v1
          text_request_def engine_v1_def)
  from Predict_validation_before_acquire
         [of idle served_deps served row_request "''resnet''" "PyStr (ascii ''1'')"]
       Predict_validation_before_acquire
         [of idle served_deps served text_request "''resnet''" "PyStr (ascii ''1'')"]
       a n
  show ?thesis by blast
qed

subsection \<open>C9: one NOT_FOUND body for the three handlers\<close>

text \<open>
  Claim C9: when their availability checks fail, the three handlers give the same answer:
  404 Not Found with a JSON object whose single key \<^verbatim>\<open>error\<close> holds \<^verbatim>\<open>WRONG_MODEL_SPEC\<close>
  formatted with the requested model name and the requested version.
\<close>

theorem not_found_body_identical:
  assumes "\<not> check_availability_of_requested_status d ms requested_version model_name"
    and "\<not> fst (check_availability_of_requested_model d ms requested_version model_name)"
  shows "fst (GetModelStatus_on_get d ms model_name requested_version w) =
           Inr \<lparr>status = HTTP_NOT_FOUND,
                 body = json_dumps (JDict
                   [(''error'', JStr (WRONG_MODEL_SPEC d model_name requested_version))])\<rparr> \<and>
         fst (GetModelMetadata_on_get d ms model_name requested_version w) =
           fst (GetModelStatus_on_get d ms model_name requested_version w) \<and>
         fst (Predict_on_post d ms rq model_name requested_version w) =
           fst (GetModelStatus_on_get d ms model_name requested_version w)"
  using assms
  by (cases "check_availability_of_requested_model d ms requested_version model_name")
     (simp add: GetModelStatus_on_get_def GetModelMetadata_on_get_def Predict_on_post_def
        handler_defs)

text \<open>
  Version 99 of \<^verbatim>\<open>resnet\<close> on the concrete server.
\<close>

theorem not_found_body_identical_witness:
  "\<not> check_availability_of_requested_status served_deps served (PyStr (ascii ''99'')) ''resnet'' \<and>
   \<not> fst (check_availability_of_requested_model served_deps served (PyStr (ascii ''99'')) ''resnet'') \<and>
   fst (GetModelStatus_on_get served_deps served ''resnet'' (PyStr (ascii ''99'')) idle) =
     Inr \<lparr>status = HTTP_NOT_FOUND,
           body = json_dumps (JDict
             [(''error'', JStr (WRONG_MODEL_SPEC served_deps ''resnet'' (PyStr (ascii ''99''))))])\<rparr> \<and>
   fst (GetModelMetadata_on_get served_deps served ''resnet'' (PyStr (ascii ''99'')) idle) =
     fst (GetModelStatus_on_get served_deps served ''resnet'' (PyStr (ascii ''99'')) idle) \<and>
   fst (Predict_on_post served_deps served row_request ''resnet'' (PyStr (ascii ''99'')) idle) =
     fst (GetModelStatus_on_get served_deps served ''resnet'' (PyStr (ascii ''99'')) idle)"
proof -
  have s: "\<not> check_availability_of_requested_status served_deps served (PyStr (ascii ''99'')) ''resnet''"
    by (simp add: served_deps_def resnet_status)
  from not_found_body_identical [OF s served_v99, of idle row_request] s served_v99
  show ?thesis by blast
qed

subsection \<open>C10: GetModelStatus for version 0\<close>

text \<open>
  Claim C10: a \<^verbatim>\<open>GetModelStatus\<close> request whose path names version \<^verbatim>\<open>0\<close> is treated as a
  request with no version: provided the availability check passes, \<^verbatim>\<open>int\<close> of the text is
  0, which is falsy, and the answer holds the status entries of every version of the
  version map; it is the answer to the request without a version when that passes the check
  too.
\<close>

theorem GetModelStatus_version_zero_lists_all:
  assumes "check_availability_of_requested_status d ms (PyStr (ascii ''0'')) model_name"
    and "ms model_name = Some m"
  shows "fst (GetModelStatus_on_get d ms model_name (PyStr (ascii ''0'')) w) =
           Inr \<lparr>status = HTTP_200,
                 body = StatusToJson
                   \<lparr>model_version_status = map snd (versions_statuses m)\<rparr> True\<rparr> \<and>
         (check_availability_of_requested_status d ms (PyInt 0) model_name \<longrightarrow>
            GetModelStatus_on_get d ms model_name (PyStr (ascii ''0'')) w =
            GetModelStatus_on_get d ms model_name (PyInt 0) w)"
  using assms
  by (simp add: GetModelStatus_on_get_def handler_defs int_of_str_zero add_all_statuses)

text \<open>
  The path \<^verbatim>\<open>/v1/models/resnet/versions/0\<close> on the concrete server.
\<close>

theorem GetModelStatus_version_zero_lists_all_witness:
  "check_availability_of_requested_status served_deps served (PyStr (ascii ''0'')) ''resnet'' \<and>
   check_availability_of_requested_status served_deps served (PyInt 0) ''resnet'' \<and>
   fst (GetModelStatus_on_get served_deps served ''resnet'' (PyStr (ascii ''0'')) idle) =
     Inr \<lparr>status = HTTP_200,
           body = StatusToJson
             \<lparr>model_version_status = map snd (versions_statuses resnet)\<rparr> True\<rparr> \<and>
   GetModelStatus_on_get served_deps served ''resnet'' (PyStr (ascii ''0'')) idle =
   GetModelStatus_on_get served_deps served ''resnet'' (PyInt 0) idle"
proof -
  have s: "check_availability_of_requested_status served_deps served (PyStr (ascii ''0'')) ''resnet''"
    "check_availability_of_requested_status served_deps served (PyInt 0) ''resnet''"
    by (simp_all add: served_deps_def resnet_status)
  have m: "served ''resnet'' = Some resnet"
    by (simp add: served_def)
  from GetModelStatus_version_zero_lists_all [OF s(1) m, of idle] s
  show ?thesis by blast
qed

end
